theory Spec2Isabelle
  imports Complex_Main
begin

section \<open>Mean functions of gpyrn (\<^verbatim>\<open>src/gpyrn/meanfunc.py\<close>)\<close>

text \<open>
  The development embeds the classes of \<^verbatim>\<open>meanfunc.py\<close>. Conventions:
  \<^item> a numpy array of floats is a \<open>real list\<close> (one dimension; a scalar argument is the
    one-element list that \<^verbatim>\<open>np.atleast_1d\<close> makes of it). Floating-point rounding,
    \<open>nan\<close> and \<open>inf\<close> are not modelled: arithmetic is that of the reals;
  \<^item> an array of times keeps its dtype (\<open>ndarray\<close>: 64-bit integers or floats), because
    \<^verbatim>\<open>np.full_like\<close> builds its result in the dtype of the times it is given;
  \<^item> objects live in a store, addressed by references, because a composite keeps
    references to its children while holding a parameter array of its own;
  \<^item> a method that may raise returns \<open>error + value\<close> (\<open>Inl\<close> the exception) together
    with the store it leaves behind.
\<close>

subsection \<open>Exceptions, classes, objects, store\<close>

datatype error =
    AssertionError   \<comment> \<open>a failed \<^verbatim>\<open>assert\<close>; the only parameter-count check of the module\<close>
  | AttributeError   \<comment> \<open>reading an attribute that neither instance nor class defines\<close>
  | IndexError
  | ValueError
  | TypeError
  | RecursionError

datatype cls =
    MeanModel | Sum | Product | Constant | MultiConstant
  | Linear | Parabola | Cubic | Sine | Keplerian

type_synonym ref = nat

text \<open>
  An array of times with its dtype: what \<^verbatim>\<open>np.atleast_1d\<close> makes of integers is an
  \<^verbatim>\<open>int64\<close> array, of floats a \<^verbatim>\<open>float64\<close> array. \<open>as_float\<close> gives the values
  that arithmetic with a float operand sees.
\<close>

datatype ndarray = Int64Array "int list" | Float64Array "real list"

fun as_float :: "ndarray \<Rightarrow> real list" where
  "as_float (Int64Array xs) = map real_of_int xs"
| "as_float (Float64Array xs) = xs"

text \<open>Attributes that only some classes set in their \<^verbatim>\<open>__init__\<close>.\<close>

datatype attrs =
    NoAttrs
  | Children ref ref   \<comment> \<open>\<^verbatim>\<open>m1\<close>, \<^verbatim>\<open>m2\<close> of a composite\<close>
  | Instruments "int list" ndarray "int list"
      \<comment> \<open>\<^verbatim>\<open>obsid\<close>, \<^verbatim>\<open>time\<close>, \<^verbatim>\<open>ii\<close> of a \<^verbatim>\<open>MultiConstant\<close>\<close>

record obj =
  cls :: cls
  pars :: "real list"
  parsize :: nat
  param_names :: "string list option"
  attrs :: attrs

record store =
  objs :: "ref \<Rightarrow> obj"
  nxt :: ref

definition alloc :: "obj \<Rightarrow> store \<Rightarrow> ref \<times> store" where
  "alloc ob h = (nxt h, h\<lparr>objs := (objs h)(nxt h := ob), nxt := Suc (nxt h)\<rparr>)"

definition set_pars :: "ref \<Rightarrow> real list \<Rightarrow> store \<Rightarrow> store" where
  "set_pars self p h = h\<lparr>objs := (objs h)(self := (objs h self)\<lparr>pars := p\<rparr>)\<rparr>"

text \<open>The store before any object exists.\<close>

definition blank :: obj where
  "blank = \<lparr>cls = MeanModel, pars = [], parsize = 0, param_names = None, attrs = NoAttrs\<rparr>"

definition empty_store :: store where
  "empty_store = \<lparr>objs = (\<lambda>_. blank), nxt = 0\<rparr>"

subsection \<open>\<^verbatim>\<open>MeanModel\<close>: parameter protocol\<close>

text \<open>
  Class attributes: \<^verbatim>\<open>_parsize\<close> and \<^verbatim>\<open>_param_names\<close>. \<^verbatim>\<open>MeanModel\<close> and
  \<^verbatim>\<open>Keplerian\<close> define no \<^verbatim>\<open>_param_names\<close>; \<^verbatim>\<open>Sum\<close>, \<^verbatim>\<open>Product\<close> and
  \<^verbatim>\<open>MultiConstant\<close> set both on the instance.
\<close>

fun cls_parsize :: "cls \<Rightarrow> nat" where
  "cls_parsize Constant = 1"
| "cls_parsize Linear = 2"
| "cls_parsize Parabola = 3"
| "cls_parsize Cubic = 4"
| "cls_parsize Sine = 3"
| "cls_parsize Keplerian = 6"
| "cls_parsize _ = 0"

fun cls_param_names :: "cls \<Rightarrow> string list option" where
  "cls_param_names Constant = Some [''c'']"
| "cls_param_names Linear = Some [''slope'', ''intercept'']"
| "cls_param_names Parabola = Some [''slope'', ''intercept'', ''quadratic'']"
| "cls_param_names Cubic = Some [''slope'', ''intercept'', ''quadratic'', ''cubic'']"
| "cls_param_names Sine = Some [''amplitude'', ''period'', ''phase'']"
| "cls_param_names _ = None"

text \<open>\<^verbatim>\<open>MeanModel.__init__(self, *pars)\<close>: \<^verbatim>\<open>self.pars = np.array(pars, dtype=float)\<close>.\<close>

definition MeanModel_init :: "cls \<Rightarrow> real list \<Rightarrow> obj" where
  "MeanModel_init c ps =
     \<lparr>cls = c, pars = ps, parsize = cls_parsize c,
      param_names = cls_param_names c, attrs = NoAttrs\<rparr>"

text \<open>\<^verbatim>\<open>get_parameters\<close>: \<^verbatim>\<open>return self.pars\<close>. No class overrides it.\<close>

definition get_parameters :: "ref \<Rightarrow> store \<Rightarrow> real list" where
  "get_parameters self h = pars (objs h self)"

text \<open>The loop \<^verbatim>\<open>for _ in range(n): p.pop(0)\<close>.\<close>

fun pops :: "nat \<Rightarrow> 'a list \<Rightarrow> 'a list" where
  "pops 0 p = p"
| "pops (Suc n) p = pops n (tl p)"

text \<open>
  \<^verbatim>\<open>set_parameters(self, p)\<close>, after \<^verbatim>\<open>np.atleast_1d\<close>. The assertion compares with
  \<^verbatim>\<open>self.pars.size\<close>. With excess values the front is stored and the rest returned;
  otherwise \<^verbatim>\<open>p\<close> itself is stored and the method falls off its end, returning
  \<^verbatim>\<open>None\<close>. No class overrides the method, so this is also what \<^verbatim>\<open>Sum\<close> and
  \<^verbatim>\<open>Product\<close> run.
\<close>

definition set_parameters ::
  "ref \<Rightarrow> real list \<Rightarrow> store \<Rightarrow> (error + real list option) \<times> store" where
  "set_parameters self p h =
     (if \<not> length p \<ge> length (pars (objs h self)) then (Inl AssertionError, h)
      else if length p > length (pars (objs h self)) then
        (let h' = set_pars self (take (length (pars (objs h self))) p) h
         in (Inr (Some (pops (length (pars (objs h' self))) p)), h'))
      else (Inr None, set_pars self p h))"

subsection \<open>Composites\<close>

text \<open>
  \<^verbatim>\<open>Sum.__init__\<close> and \<^verbatim>\<open>Product.__init__\<close> have the same body: keep the two
  references, read \<^verbatim>\<open>_param_names\<close> of both children (an \<^verbatim>\<open>AttributeError\<close> where
  a child has none), add the \<^verbatim>\<open>_parsize\<close>s, and build with \<^verbatim>\<open>np.r_\<close> a new array
  holding the children's current parameters.
\<close>

definition composite_init :: "cls \<Rightarrow> ref \<Rightarrow> ref \<Rightarrow> store \<Rightarrow> (error + ref) \<times> store" where
  "composite_init c a b h =
     (case param_names (objs h a) of
        None \<Rightarrow> (Inl AttributeError, h)
      | Some na \<Rightarrow>
          (case param_names (objs h b) of
             None \<Rightarrow> (Inl AttributeError, h)
           | Some nb \<Rightarrow>
               (let (r, h') = alloc
                      \<lparr>cls = c, pars = pars (objs h a) @ pars (objs h b),
                       parsize = parsize (objs h a) + parsize (objs h b),
                       param_names = Some (na @ nb), attrs = Children a b\<rparr> h
                in (Inr r, h'))))"

definition Sum_init :: "ref \<Rightarrow> ref \<Rightarrow> store \<Rightarrow> (error + ref) \<times> store" where
  "Sum_init = composite_init Sum"

definition Product_init :: "ref \<Rightarrow> ref \<Rightarrow> store \<Rightarrow> (error + ref) \<times> store" where
  "Product_init = composite_init Product"

text \<open>\<^verbatim>\<open>__add__\<close> and \<^verbatim>\<open>__mul__\<close>.\<close>

definition add :: "ref \<Rightarrow> ref \<Rightarrow> store \<Rightarrow> (error + ref) \<times> store" where
  "add self b = Sum_init self b"

definition mul :: "ref \<Rightarrow> ref \<Rightarrow> store \<Rightarrow> (error + ref) \<times> store" where
  "mul self b = Product_init self b"

subsection \<open>Leaf constructors\<close>

definition Constant_init :: "real \<Rightarrow> store \<Rightarrow> ref \<times> store" where
  "Constant_init c h = alloc (MeanModel_init Constant [c]) h"

definition Linear_init :: "real \<Rightarrow> real \<Rightarrow> store \<Rightarrow> ref \<times> store" where
  "Linear_init slope intercept h = alloc (MeanModel_init Linear [slope, intercept]) h"

definition Parabola_init :: "real \<Rightarrow> real \<Rightarrow> real \<Rightarrow> store \<Rightarrow> ref \<times> store" where
  "Parabola_init quad slope intercept h =
     alloc (MeanModel_init Parabola [quad, slope, intercept]) h"

definition Cubic_init :: "real \<Rightarrow> real \<Rightarrow> real \<Rightarrow> real \<Rightarrow> store \<Rightarrow> ref \<times> store" where
  "Cubic_init cub quad slope intercept h =
     alloc (MeanModel_init Cubic [cub, quad, slope, intercept]) h"

definition Sine_init :: "real \<Rightarrow> real \<Rightarrow> real \<Rightarrow> store \<Rightarrow> ref \<times> store" where
  "Sine_init amplitude period phase h =
     alloc (MeanModel_init Sine [amplitude, period, phase]) h"

text \<open>\<^verbatim>\<open>Keplerian.__init__\<close> stores its six arguments; it checks none of them.\<close>

definition Keplerian_init ::
  "real \<Rightarrow> real \<Rightarrow> real \<Rightarrow> real \<Rightarrow> real \<Rightarrow> real \<Rightarrow> store \<Rightarrow> ref \<times> store" where
  "Keplerian_init P K e w phi sys_vel h =
     alloc (MeanModel_init Keplerian [P, K, e, w, phi, sys_vel]) h"

subsection \<open>numpy operations on one-dimensional arrays\<close>

definition then_do :: "error + 'a \<Rightarrow> ('a \<Rightarrow> error + 'b) \<Rightarrow> error + 'b" where
  "then_do r f = (case r of Inl e \<Rightarrow> Inl e | Inr x \<Rightarrow> f x)"

text \<open>
  An arithmetic operator on two arrays: elementwise on equal lengths, a one-element array
  is broadcast, any other pair of lengths is a \<^verbatim>\<open>ValueError\<close>.
\<close>

definition np_binop :: "(real \<Rightarrow> real \<Rightarrow> real) \<Rightarrow> real list \<Rightarrow> real list \<Rightarrow> error + real list" where
  "np_binop f x y =
     (if length x = length y then Inr (map2 f x y)
      else if length x = 1 then Inr (map (f (hd x)) y)
      else if length y = 1 then Inr (map (\<lambda>a. f a (hd y)) x)
      else Inl ValueError)"

text \<open>\<^verbatim>\<open>np.ediff1d(a)\<close>: differences of consecutive elements.\<close>

definition ediff1d :: "int list \<Rightarrow> int list" where
  "ediff1d a = map2 (\<lambda>x y. y - x) a (tl a)"

text \<open>\<^verbatim>\<open>a[mask]\<close> with a boolean mask, which must have the length of \<^verbatim>\<open>a\<close>.\<close>

definition mask_select :: "real list \<Rightarrow> bool list \<Rightarrow> error + real list" where
  "mask_select a msk =
     (if length msk \<noteq> length a then Inl IndexError
      else Inr (map fst (filter snd (zip a msk))))"

text \<open>
  \<^verbatim>\<open>np.take(a, ii)\<close>: an index \<open>i\<close> with \<open>-n \<le> i < n\<close> reads position \<open>i\<close>, counted from the
  end when negative; any other index raises.
\<close>

fun np_take :: "real list \<Rightarrow> int list \<Rightarrow> error + real list" where
  "np_take a [] = Inr []"
| "np_take a (i # is) =
     (if - int (length a) \<le> i \<and> i < int (length a)
      then then_do (np_take a is)
             (\<lambda>r. Inr (a ! nat (if i < 0 then i + int (length a) else i) # r))
      else Inl IndexError)"

text \<open>
  \<^verbatim>\<open>np.digitize(x, bins)\<close> for increasing \<^verbatim>\<open>bins\<close>: the index \<open>i\<close> with
  \<open>bins[i-1] \<le> x < bins[i]\<close>, that is the number of edges not above \<open>x\<close>.
\<close>

definition digitize :: "real \<Rightarrow> real list \<Rightarrow> nat" where
  "digitize x bins = length (filter (\<lambda>b. b \<le> x) bins)"

text \<open>
  \<^verbatim>\<open>np.full_like(t, c)\<close> has the shape and the dtype of \<^verbatim>\<open>t\<close>: into an integer
  array the float \<^verbatim>\<open>c\<close> is stored by the C cast to \<^verbatim>\<open>int64\<close>, which drops the
  fraction (rounds towards zero). A value outside the \<^verbatim>\<open>int64\<close> range has no portable
  result; the model gives the one of x86-64, the smallest \<^verbatim>\<open>int64\<close>.
\<close>

definition trunc :: "real \<Rightarrow> int" where
  "trunc x = (if 0 \<le> x then \<lfloor>x\<rfloor> else \<lceil>x\<rceil>)"

definition cast_int64 :: "real \<Rightarrow> int" where
  "cast_int64 x =
     (if - (2 ^ 63) \<le> trunc x \<and> trunc x < 2 ^ 63 then trunc x else - (2 ^ 63))"

fun full_like :: "ndarray \<Rightarrow> real \<Rightarrow> ndarray" where
  "full_like (Int64Array xs) c = Int64Array (map (\<lambda>_. cast_int64 c) xs)"
| "full_like (Float64Array xs) c = Float64Array (map (\<lambda>_. c) xs)"

text \<open>\<^verbatim>\<open>np.polyval(p, x)\<close>: Horner's scheme, highest coefficient first.\<close>

definition polyval :: "real list \<Rightarrow> real \<Rightarrow> real" where
  "polyval p x = foldl (\<lambda>y c. y * x + c) 0 p"

subsection \<open>Closed-form leaves\<close>

definition Constant_call :: "obj \<Rightarrow> real list \<Rightarrow> error + real list" where
  "Constant_call self t =
     (case pars self of [] \<Rightarrow> Inl IndexError | c # _ \<Rightarrow> Inr (map (\<lambda>_. c) t))"

definition Linear_call :: "obj \<Rightarrow> real list \<Rightarrow> error + real list" where
  "Linear_call self t =
     (let tmean = sum_list t / real (length t) in
      case pars self of
        p0 # p1 # _ \<Rightarrow> Inr (map (\<lambda>x. p0 * (x - tmean) + p1) t)
      | _ \<Rightarrow> Inl IndexError)"

definition Polynomial_call :: "obj \<Rightarrow> real list \<Rightarrow> error + real list" where
  "Polynomial_call self t = Inr (map (polyval (pars self)) t)"

definition Sine_call :: "obj \<Rightarrow> real list \<Rightarrow> error + real list" where
  "Sine_call self t =
     (case pars self of
        [A, P, \<phi>] \<Rightarrow> Inr (map (\<lambda>x. A * sin ((2 * pi * x / P) + \<phi>)) t)
      | _ \<Rightarrow> Inl ValueError)"

subsection \<open>\<^verbatim>\<open>MultiConstant\<close>\<close>

text \<open>The \<^verbatim>\<open>offsets\<close> argument: a bare float is wrapped into a list.\<close>

datatype offsets_arg = OffFloat real | OffSeq "real list"

fun str_nat :: "nat \<Rightarrow> string" where
  "str_nat n =
     (if n < 10 then [char_of (48 + n)]
      else str_nat (n div 10) @ [char_of (48 + n mod 10)])"

text \<open>
  \<^verbatim>\<open>MultiConstant.__init__\<close>. The count is taken from the label steps equal to one; the
  assertion on \<^verbatim>\<open>len(offsets)\<close> comes before \<^verbatim>\<open>super().__init__\<close>, which is what
  assigns \<^verbatim>\<open>pars\<close>. When it fails the half-built object is dropped: the store is left as
  it was.
\<close>

definition MultiConstant_parsize :: "int list \<Rightarrow> nat" where
  "MultiConstant_parsize obsid = length (filter (\<lambda>d. d = 1) (ediff1d obsid)) + 1"

definition offsets_list :: "offsets_arg \<Rightarrow> real list" where
  "offsets_list offsets = (case offsets of OffFloat x \<Rightarrow> [x] | OffSeq xs \<Rightarrow> xs)"

definition MultiConstant_init ::
  "offsets_arg \<Rightarrow> int list \<Rightarrow> ndarray \<Rightarrow> store \<Rightarrow> (error + ref) \<times> store" where
  "MultiConstant_init offsets obsid time h =
     (let psz = MultiConstant_parsize obsid;
          ii = map (\<lambda>x. x - 1) obsid;
          offsets = offsets_list offsets
      in if length offsets \<noteq> psz then (Inl AssertionError, h)
         else
           (let (r, h') = alloc
                  \<lparr>cls = MultiConstant, pars = offsets, parsize = psz,
                   param_names =
                     Some (map (\<lambda>i. ''off'' @ str_nat i) [1..<psz] @ [''mean'']),
                   attrs = Instruments obsid time ii\<rparr> h
            in (Inr r, h')))"

text \<open>\<^verbatim>\<open>time_bins\<close>; \<open>x1\<close> and \<open>x2\<close> are the source's \<^verbatim>\<open>_1\<close> and \<^verbatim>\<open>_2\<close>.\<close>

definition time_bins :: "int list \<Rightarrow> real list \<Rightarrow> error + real list" where
  "time_bins obsid time =
     then_do (mask_select time (map (\<lambda>d. d \<noteq> 0) (ediff1d obsid @ [0]))) (\<lambda>x1.
     then_do (mask_select time (map (\<lambda>d. d \<noteq> 0) (0 # ediff1d obsid))) (\<lambda>x2.
       (case time of
          [] \<Rightarrow> Inl IndexError
        | t0 # _ \<Rightarrow> Inr (sort (t0 # map2 (\<lambda>a b. (a + b) / 2) x1 x2)))))"

text \<open>
  \<^verbatim>\<open>MultiConstant.__call__\<close>. The level \<^verbatim>\<open>c\<close> goes through
  \<^verbatim>\<open>np.full_like(t, c)\<close>, so it takes the dtype of the times before the offsets,
  which are floats, are added.
\<close>

definition MultiConstant_call :: "obj \<Rightarrow> ndarray \<Rightarrow> error + real list" where
  "MultiConstant_call self t =
     (case attrs self of
        Instruments obsid time ii \<Rightarrow>
          (if pars self = [] then Inl IndexError
           else
             (let offsets = butlast (pars self); c = last (pars self);
                  offsets = offsets @ [0]
              in then_do
                   (if length (as_float t) = length (as_float time) then Inr ii
                    else then_do (time_bins obsid (as_float time))
                           (\<lambda>bins. Inr (map (\<lambda>x. int (digitize x bins) - 1) (as_float t))))
                   (\<lambda>ii. then_do (np_take offsets ii)
                           (\<lambda>taken. np_binop (+) (as_float (full_like t c)) taken))))
      | _ \<Rightarrow> Inl AttributeError)"

subsection \<open>\<^verbatim>\<open>Keplerian\<close>\<close>

text \<open>
  The state of the refinement loop: the arrays \<^verbatim>\<open>E0\<close>, \<^verbatim>\<open>M0\<close>, \<^verbatim>\<open>M1\<close> and the
  counters \<^verbatim>\<open>nd\<close> and \<^verbatim>\<open>count\<close>.
\<close>

record kstate =
  E0 :: "real list"
  M0 :: "real list"
  M1 :: "real list"
  nd :: nat
  count :: nat

definition criteria :: real where
  "criteria = 1 / 10 ^ 10"

text \<open>
  The operand of \<^verbatim>\<open>np.sum\<close> in the loop is \<^verbatim>\<open>convergence_criteria is True\<close>, an
  identity test between an array and the constant \<^verbatim>\<open>True\<close>. The values that can stand
  on either side are a Python bool or a boolean array.
\<close>

datatype pyval = PyBool bool | BoolArray "bool list"

text \<open>\<^verbatim>\<open>v is True\<close>: only the bool \<^verbatim>\<open>True\<close> is that object, an array never is.\<close>

definition is_True :: "pyval \<Rightarrow> bool" where
  "is_True v = (case v of PyBool b \<Rightarrow> b | BoolArray _ \<Rightarrow> False)"

definition np_sum_bool :: "bool \<Rightarrow> nat" where
  "np_sum_bool b = (if b then 1 else 0)"

text \<open>The state before the loop, from \<^verbatim>\<open>P\<close>, \<^verbatim>\<open>e\<close>, \<^verbatim>\<open>phi\<close> and the times.\<close>

definition kepler_T0 :: "real \<Rightarrow> real \<Rightarrow> real \<Rightarrow> real" where
  "kepler_T0 P phi t0 = t0 - (P * phi) / (2 * pi)"

definition kepler_M0 :: "real \<Rightarrow> real \<Rightarrow> real \<Rightarrow> real list \<Rightarrow> real list" where
  "kepler_M0 P phi t0 t = map (\<lambda>x. 2 * pi * (x - kepler_T0 P phi t0) / P) t"

definition kepler_start :: "real \<Rightarrow> real \<Rightarrow> real \<Rightarrow> real \<Rightarrow> real list \<Rightarrow> kstate" where
  "kepler_start P e phi t0 t =
     (let M0 = kepler_M0 P phi t0 t;
          E0 = map (\<lambda>m. m + e * sin m + 0.5 * (e ^ 2) * sin (2 * m)) M0;
          M1 = map2 (\<lambda>x m. x - e * sin x - m) E0 M0;
          convd = filter (\<lambda>x. \<bar>x\<bar> > criteria) M1
      in \<lparr>E0 = E0, M0 = M0, M1 = M1, nd = length convd, count = 0\<rparr>)"

text \<open>One pass of the loop body, on whole arrays.\<close>

definition halley_pass :: "real \<Rightarrow> kstate \<Rightarrow> kstate" where
  "halley_pass e s =
     (let E = E0 s;
          M1p = map (\<lambda>x. 1 - e * cos x) E;
          M1pp = map (\<lambda>x. e * sin x) E;
          M1ppp = map (\<lambda>x. 1 - x) M1p;
          d1 = map2 (\<lambda>m p. - m / p) (M1 s) M1p;
          d2 = map2 (\<lambda>m q. - m / q) (M1 s)
                 (map2 (+) M1p (map (\<lambda>x. x / 2) (map2 (*) d1 M1pp)));
          d3 = map2 (\<lambda>m q. - m / q) (M1 s)
                 (map2 (+) (map2 (+) M1p (map (\<lambda>x. x / 2) (map2 (*) d2 M1pp)))
                    (map (\<lambda>x. x / 6) (map2 (*) (map2 (*) d2 d2) M1ppp)));
          E = map2 (+) E d3;
          E0' = E;
          M0' = map (\<lambda>x. x - e * sin x) E0';
          M1' = map2 (\<lambda>x m. x - e * sin x - m) E0' M0';
          convergence_criteria = map (\<lambda>x. \<bar>x\<bar> > criteria) M1';
          nd' = np_sum_bool (is_True (BoolArray convergence_criteria))
      in \<lparr>E0 = E0', M0 = M0', M1 = M1', nd = nd', count = count s + 1\<rparr>)"

text \<open>\<^verbatim>\<open>while nd > 0: ...\<close>\<close>

function kepler_loop :: "real \<Rightarrow> kstate \<Rightarrow> kstate" where
  "kepler_loop e s = (if nd s > 0 then kepler_loop e (halley_pass e s) else s)"
  by pat_completeness auto
termination
  by (relation "measure (\<lambda>(e, s). nd s)")
    (simp_all add: halley_pass_def Let_def is_True_def np_sum_bool_def)

declare kepler_loop.simps [simp del]

text \<open>
  \<^verbatim>\<open>2*np.arctan(np.sqrt((1+e)/(1-e))*np.tan(E0/2))\<close>. Where \<open>cos (x / 2) = 0\<close> the
  tangent has a pole: the reals give it no value there and HOL's \<open>tan\<close> is 0, while
  numpy's \<^verbatim>\<open>tan\<close> of the nearest float is finite and huge, of either sign, so that with
  a positive factor the arctangent is \<open>\<plusminus> \<pi>/2\<close> and the anomaly \<open>\<plusminus> \<pi>\<close>. The radial
  velocity reads the anomaly only through \<open>cos (w + \<nu>)\<close>, which is the same for both
  signs; the model takes \<open>\<pi>\<close>.
\<close>

definition true_anomaly :: "real \<Rightarrow> real \<Rightarrow> real" where
  "true_anomaly e x =
     (if cos (x / 2) = 0 \<and> 0 < sqrt ((1 + e) / (1 - e)) then pi
      else 2 * arctan (sqrt ((1 + e) / (1 - e)) * tan (x / 2)))"

text \<open>
  \<^verbatim>\<open>Keplerian.__call__\<close>. Unpacking \<^verbatim>\<open>self.pars\<close> needs exactly six values and
  \<^verbatim>\<open>t[0]\<close> needs a first time; nothing else in the body can raise.
\<close>

definition Keplerian_call :: "obj \<Rightarrow> real list \<Rightarrow> error + real list" where
  "Keplerian_call self t =
     (case pars self of
        [P, K, e, w, phi, sys_vel] \<Rightarrow>
          (case t of
             [] \<Rightarrow> Inl IndexError
           | t0 # _ \<Rightarrow>
               (let s = kepler_loop e (kepler_start P e phi t0 t);
                    nu = map (true_anomaly e) (E0 s);
                    RV = map (\<lambda>v. K * (e * cos w + cos (w + v)) + sys_vel) nu
                in Inr RV))
      | _ \<Rightarrow> Inl ValueError)"

subsection \<open>Evaluation: \<^verbatim>\<open>__call__\<close> by class\<close>

text \<open>
  A composite calls its children through their references. The first argument bounds
  the depth of nested calls, as the interpreter's recursion limit does.
  \<^verbatim>\<open>MeanModel\<close> itself has no \<^verbatim>\<open>__call__\<close>. Every class but \<^verbatim>\<open>MultiConstant\<close>
  combines the times with floats at once, and so sees only their values.
\<close>

fun call :: "nat \<Rightarrow> store \<Rightarrow> ref \<Rightarrow> ndarray \<Rightarrow> error + real list" where
  "call 0 h self t = Inl RecursionError"
| "call (Suc depth) h self t =
     (case cls (objs h self) of
        MeanModel \<Rightarrow> Inl TypeError
      | Sum \<Rightarrow>
          (case attrs (objs h self) of
             Children a b \<Rightarrow>
               (case call depth h a t of
                  Inl e \<Rightarrow> Inl e
                | Inr x \<Rightarrow>
                    (case call depth h b t of
                       Inl e \<Rightarrow> Inl e
                     | Inr y \<Rightarrow> np_binop (+) x y))
           | _ \<Rightarrow> Inl AttributeError)
      | Product \<Rightarrow>
          (case attrs (objs h self) of
             Children a b \<Rightarrow>
               (case call depth h a t of
                  Inl e \<Rightarrow> Inl e
                | Inr x \<Rightarrow>
                    (case call depth h b t of
                       Inl e \<Rightarrow> Inl e
                     | Inr y \<Rightarrow> np_binop (*) x y))
           | _ \<Rightarrow> Inl AttributeError)
      | Constant \<Rightarrow> Constant_call (objs h self) (as_float t)
      | MultiConstant \<Rightarrow> MultiConstant_call (objs h self) t
      | Linear \<Rightarrow> Linear_call (objs h self) (as_float t)
      | Parabola \<Rightarrow> Polynomial_call (objs h self) (as_float t)
      | Cubic \<Rightarrow> Polynomial_call (objs h self) (as_float t)
      | Sine \<Rightarrow> Sine_call (objs h self) (as_float t)
      | Keplerian \<Rightarrow> Keplerian_call (objs h self) (as_float t))"

subsection \<open>Stores used as concrete inputs\<close>

text \<open>\<^verbatim>\<open>c1 = Constant(1); c2 = Constant(2)\<close>, at references 0 and 1.\<close>

definition two_constants :: store where
  "two_constants = snd (Constant_init 2 (snd (Constant_init 1 empty_store)))"

text \<open>\<^verbatim>\<open>s = c1 + c2\<close>, at reference 2.\<close>

definition sum_of_constants :: store where
  "sum_of_constants = snd (add 0 1 two_constants)"

text \<open>\<^verbatim>\<open>k = Keplerian(1, 1, 0, 0, 0, 0); c = Constant(0)\<close>, at references 0 and 1.\<close>

definition kepler_and_constant :: store where
  "kepler_and_constant =
     snd (Constant_init 0 (snd (Keplerian_init 1 1 0 0 0 0 empty_store)))"

section \<open>Properties\<close>

subsection \<open>Auxiliary facts\<close>

lemmas build_defs = two_constants_def sum_of_constants_def kepler_and_constant_def
  empty_store_def blank_def Constant_init_def Keplerian_init_def MeanModel_init_def
  alloc_def add_def mul_def Sum_init_def Product_init_def composite_init_def

lemma pops_drop: "pops n p = drop n p"
  by (induction n arbitrary: p) (simp_all add: drop_Suc)

lemmas run_defs = set_parameters_def set_pars_def get_parameters_def Let_def pops_drop

lemma set_parameters_ok:
  "length (pars (objs h self)) \<le> length p \<Longrightarrow>
   set_parameters self p h =
     (Inr (if length (pars (objs h self)) < length p
           then Some (drop (length (pars (objs h self))) p) else None),
      set_pars self (take (length (pars (objs h self))) p) h)"
  by (simp add: set_parameters_def Let_def pops_drop set_pars_def)

lemma objs_set_pars:
  "objs (set_pars self p h) r = (if r = self then (objs h self)\<lparr>pars := p\<rparr> else objs h r)"
  by (simp add: set_pars_def)

lemma composite_init_Inr:
  "composite_init c a b h = (Inr s, h1) \<Longrightarrow>
   s = nxt h \<and> nxt h1 = Suc (nxt h) \<and>
   (\<forall>r. r \<noteq> s \<longrightarrow> objs h1 r = objs h r) \<and>
   cls (objs h1 s) = c \<and>
   pars (objs h1 s) = pars (objs h a) @ pars (objs h b) \<and>
   parsize (objs h1 s) = parsize (objs h a) + parsize (objs h b) \<and>
   attrs (objs h1 s) = Children a b"
  by (auto simp: composite_init_def alloc_def Let_def split: option.splits)

text \<open>
  Every constructor yields an object whose parameter array has \<^verbatim>\<open>_parsize\<close> entries,
  and \<^verbatim>\<open>set_parameters\<close> keeps the length of the array it replaces.
\<close>

lemma leaf_parsize:
  "length (pars (objs (snd (Constant_init c h)) (fst (Constant_init c h)))) =
     parsize (objs (snd (Constant_init c h)) (fst (Constant_init c h)))"
  "length (pars (objs (snd (Linear_init a b h)) (fst (Linear_init a b h)))) =
     parsize (objs (snd (Linear_init a b h)) (fst (Linear_init a b h)))"
  "length (pars (objs (snd (Sine_init a b c h)) (fst (Sine_init a b c h)))) =
     parsize (objs (snd (Sine_init a b c h)) (fst (Sine_init a b c h)))"
  "length (pars (objs (snd (Keplerian_init P K e w phi v h))
       (fst (Keplerian_init P K e w phi v h)))) =
     parsize (objs (snd (Keplerian_init P K e w phi v h))
       (fst (Keplerian_init P K e w phi v h)))"
  by (simp_all add: Constant_init_def Linear_init_def Sine_init_def Keplerian_init_def
      MeanModel_init_def alloc_def)

lemma polynomial_parsize:
  "length (pars (objs (snd (Parabola_init a b c h)) (fst (Parabola_init a b c h)))) =
     parsize (objs (snd (Parabola_init a b c h)) (fst (Parabola_init a b c h)))"
  "length (pars (objs (snd (Cubic_init a b c d h)) (fst (Cubic_init a b c d h)))) =
     parsize (objs (snd (Cubic_init a b c d h)) (fst (Cubic_init a b c d h)))"
  by (simp_all add: Parabola_init_def Cubic_init_def MeanModel_init_def alloc_def)

lemma MultiConstant_parsize_pars:
  "MultiConstant_init offsets obsid time h = (Inr r, h') \<Longrightarrow>
   length (pars (objs h' r)) = parsize (objs h' r)"
  by (auto simp: MultiConstant_init_def alloc_def Let_def split: if_splits)

lemma composite_parsize:
  assumes "composite_init c a b h = (Inr s, h1)"
    and "length (pars (objs h a)) = parsize (objs h a)"
    and "length (pars (objs h b)) = parsize (objs h b)"
  shows "length (pars (objs h1 s)) = parsize (objs h1 s)"
  using composite_init_Inr [OF assms(1)] assms(2,3) by (elim conjE) simp

lemma set_parameters_keeps_length:
  "fst (set_parameters self p h) = Inr r \<Longrightarrow>
   length (pars (objs (snd (set_parameters self p h)) self)) = length (pars (objs h self))"
  by (auto simp: set_parameters_def Let_def objs_set_pars split: if_splits)

subsection \<open>Parameter protocol of composites\<close>

text \<open>
  Claim C1, as the code has it. \<^verbatim>\<open>Sum\<close> and \<^verbatim>\<open>Product\<close> inherit
  \<^verbatim>\<open>set_parameters\<close> from \<^verbatim>\<open>MeanModel\<close>: on a composite \<open>s\<close> with children \<open>a\<close> and
  \<open>b\<close>, and a stream at least as long as the composite's parameter count, the call stores
  the first parameter-count values in the composite's own array, leaves the parameter
  arrays of both children as they were, and returns the excess values (\<^verbatim>\<open>None\<close> when
  there is no excess).
\<close>

theorem composite_set_parameters_keeps_children:
  assumes "cls (objs h s) = Sum \<or> cls (objs h s) = Product"
    and "attrs (objs h s) = Children a b" and "a \<noteq> s" and "b \<noteq> s"
    and "length (pars (objs h s)) = parsize (objs h s)"
    and "parsize (objs h s) \<le> length p"
  shows "get_parameters s (snd (set_parameters s p h)) = take (parsize (objs h s)) p
       \<and> get_parameters a (snd (set_parameters s p h)) = get_parameters a h
       \<and> get_parameters b (snd (set_parameters s p h)) = get_parameters b h
       \<and> fst (set_parameters s p h) =
           Inr (if parsize (objs h s) < length p
                then Some (drop (parsize (objs h s)) p) else None)"
  using assms by (simp add: set_parameters_ok get_parameters_def objs_set_pars)

theorem composite_set_parameters_keeps_children_witness:
  "(cls (objs sum_of_constants 2) = Sum \<or> cls (objs sum_of_constants 2) = Product)
   \<and> attrs (objs sum_of_constants 2) = Children 0 1
   \<and> length (pars (objs sum_of_constants 2)) = parsize (objs sum_of_constants 2)
   \<and> parsize (objs sum_of_constants 2) \<le> length [10, 20, 30 :: real]
   \<and> get_parameters 2 (snd (set_parameters 2 [10, 20, 30] sum_of_constants)) = [10, 20]
   \<and> get_parameters 0 (snd (set_parameters 2 [10, 20, 30] sum_of_constants)) = [1]
   \<and> get_parameters 1 (snd (set_parameters 2 [10, 20, 30] sum_of_constants)) = [2]
   \<and> fst (set_parameters 2 [10, 20, 30] sum_of_constants) = Inr (Some [30])"
proof -
  have c: "cls (objs sum_of_constants 2) = Sum \<or> cls (objs sum_of_constants 2) = Product"
    by (simp add: build_defs)
  have k: "attrs (objs sum_of_constants 2) = Children 0 1"
    by (simp add: build_defs)
  have l: "length (pars (objs sum_of_constants 2)) = parsize (objs sum_of_constants 2)"
    by (simp add: build_defs)
  have n: "parsize (objs sum_of_constants 2) \<le> length [10, 20, 30 :: real]"
    by (simp add: build_defs)
  have g: "get_parameters 0 sum_of_constants = [1]" "get_parameters 1 sum_of_constants = [2]"
    "parsize (objs sum_of_constants 2) = 2"
    by (simp_all add: build_defs run_defs)
  from composite_set_parameters_keeps_children [OF c k _ _ l n] c k l n g
  show ?thesis by simp
qed

text \<open>
  Claim C1 as stated fails: after \<^verbatim>\<open>s = Constant(1) + Constant(2)\<close> and
  \<^verbatim>\<open>s.set_parameters([10, 20, 30])\<close> the children still hold \<open>[1]\<close> and \<open>[2]\<close>, not the
  sub-ranges \<open>[10]\<close> and \<open>[20]\<close>.
\<close>

theorem composite_set_parameters_counterexample:
  "fst (add 0 1 two_constants) = Inr 2
   \<and> get_parameters 0 (snd (set_parameters 2 [10, 20, 30] sum_of_constants)) = [1]
   \<and> get_parameters 1 (snd (set_parameters 2 [10, 20, 30] sum_of_constants)) = [2]
   \<and> get_parameters 0 (snd (set_parameters 2 [10, 20, 30] sum_of_constants)) \<noteq> [10]
   \<and> get_parameters 1 (snd (set_parameters 2 [10, 20, 30] sum_of_constants)) \<noteq> [20]"
  by (simp add: build_defs run_defs)

text \<open>
  Claim C2, as the code has it. \<^verbatim>\<open>get_parameters\<close> of a composite returns the array
  that \<^verbatim>\<open>np.r_\<close> built in \<^verbatim>\<open>__init__\<close>: right after construction it is the
  concatenation of the children's arrays of that moment, and a later
  \<^verbatim>\<open>set_parameters\<close> on either child does not change it.
\<close>

theorem composite_get_parameters_is_snapshot:
  assumes "composite_init c a b h = (Inr s, h1)" and "a < nxt h" and "b < nxt h"
  shows "get_parameters s h1 = get_parameters a h @ get_parameters b h
       \<and> get_parameters s (snd (set_parameters a p h1)) = get_parameters s h1
       \<and> get_parameters s (snd (set_parameters b p h1)) = get_parameters s h1"
proof -
  from composite_init_Inr [OF assms(1)]
  have s: "s = nxt h" and ps: "pars (objs h1 s) = pars (objs h a) @ pars (objs h b)"
    by blast+
  from s assms(2,3) have ne: "s \<noteq> a" "s \<noteq> b" by simp_all
  have fr: "pars (objs (snd (set_parameters r p h1)) s) = pars (objs h1 s)" if "s \<noteq> r" for r
    using that by (simp add: set_parameters_def Let_def objs_set_pars)
  show ?thesis using ps ne fr by (simp add: get_parameters_def)
qed

theorem composite_get_parameters_is_snapshot_witness:
  "composite_init Sum 0 1 two_constants = (Inr 2, sum_of_constants)
   \<and> (0::nat) < nxt two_constants \<and> (1::nat) < nxt two_constants
   \<and> get_parameters 2 sum_of_constants = [1, 2]
   \<and> get_parameters 2 (snd (set_parameters 0 [5] sum_of_constants)) = [1, 2]
   \<and> get_parameters 2 (snd (set_parameters 1 [5] sum_of_constants)) = [1, 2]"
proof -
  have i: "composite_init Sum 0 1 two_constants = (Inr 2, sum_of_constants)"
    by (simp add: build_defs)
  have a: "(0::nat) < nxt two_constants" and b: "(1::nat) < nxt two_constants"
    by (simp_all add: build_defs)
  have g: "get_parameters 0 two_constants @ get_parameters 1 two_constants = [1, 2]"
    by (simp add: build_defs run_defs)
  from composite_get_parameters_is_snapshot [OF i a b, of "[5]"] i a b g
  show ?thesis by simp
qed

text \<open>
  Claim C2 as stated fails: with \<^verbatim>\<open>s = c1 + c2\<close> built from \<^verbatim>\<open>Constant(1)\<close> and
  \<^verbatim>\<open>Constant(2)\<close>, after \<^verbatim>\<open>c1.set_parameters([5])\<close> the children hold \<open>[5]\<close> and
  \<open>[2]\<close> while \<^verbatim>\<open>s.get_parameters()\<close> is still \<open>[1, 2]\<close>.
\<close>

theorem composite_get_parameters_counterexample:
  "fst (add 0 1 two_constants) = Inr 2
   \<and> get_parameters 2 (snd (set_parameters 0 [5] sum_of_constants)) = [1, 2]
   \<and> get_parameters 0 (snd (set_parameters 0 [5] sum_of_constants))
       @ get_parameters 1 (snd (set_parameters 0 [5] sum_of_constants)) = [5, 2]"
  by (simp add: build_defs run_defs)

subsection \<open>Parameter protocol of a single model\<close>

text \<open>
  Claim C3, as the code has it. For an instance whose parameter array has
  parameter-count entries (every constructed instance, see \<open>leaf_parsize\<close>,
  \<open>polynomial_parsize\<close>, \<open>MultiConstant_parsize_pars\<close> and \<open>composite_parsize\<close>) and a stream \<open>p\<close> at least that long, \<^verbatim>\<open>set_parameters\<close> stores
  the first parameter-count values of \<open>p\<close>, in order, and touches no other object. With
  excess values it returns exactly the excess, in order; with a stream of exactly
  parameter-count values it returns \<^verbatim>\<open>None\<close>, not an empty array.
\<close>

theorem set_parameters_front_and_excess:
  assumes "length (pars (objs h self)) = parsize (objs h self)"
    and "parsize (objs h self) \<le> length p"
  shows "get_parameters self (snd (set_parameters self p h)) = take (parsize (objs h self)) p
       \<and> fst (set_parameters self p h) =
           Inr (if parsize (objs h self) < length p
                then Some (drop (parsize (objs h self)) p) else None)
       \<and> (\<forall>r. r \<noteq> self \<longrightarrow> objs (snd (set_parameters self p h)) r = objs h r)"
  using assms by (simp add: set_parameters_ok get_parameters_def objs_set_pars)

theorem set_parameters_front_and_excess_witness:
  "length (pars (objs two_constants 0)) = parsize (objs two_constants 0)
   \<and> parsize (objs two_constants 0) \<le> length [7, 8, 9 :: real]
   \<and> get_parameters 0 (snd (set_parameters 0 [7, 8, 9] two_constants)) = [7]
   \<and> fst (set_parameters 0 [7, 8, 9] two_constants) = Inr (Some [8, 9])
   \<and> get_parameters 1 (snd (set_parameters 0 [7, 8, 9] two_constants)) = [2]"
proof -
  have l: "length (pars (objs two_constants 0)) = parsize (objs two_constants 0)"
    by (simp add: build_defs)
  have n: "parsize (objs two_constants 0) \<le> length [7, 8, 9 :: real]"
    by (simp add: build_defs)
  have g: "parsize (objs two_constants 0) = 1" "pars (objs two_constants 1) = [2]"
    by (simp_all add: build_defs)
  from set_parameters_front_and_excess [OF l n] l n g
  show ?thesis by (simp add: get_parameters_def)
qed

text \<open>
  Claim C3 as stated fails on a stream of exactly parameter-count values:
  \<^verbatim>\<open>Constant(1).set_parameters([5])\<close> returns \<^verbatim>\<open>None\<close>, which is not an empty
  remainder.
\<close>

theorem set_parameters_exact_counterexample:
  "length [5 :: real] = parsize (objs two_constants 0)
   \<and> fst (set_parameters 0 [5] two_constants) = Inr None
   \<and> fst (set_parameters 0 [5] two_constants) \<noteq> Inr (Some [])"
  by (simp add: build_defs run_defs)

text \<open>
  Claim C7. A stream shorter than the parameter count makes \<^verbatim>\<open>set_parameters\<close> fail
  on its assertion, and a number of offsets different from the count derived from
  \<^verbatim>\<open>obsid\<close> makes \<^verbatim>\<open>MultiConstant.__init__\<close> fail on its assertion; in both cases the
  store is left exactly as it was, so no parameter has been assigned. The error the
  assertions raise is Python's \<^verbatim>\<open>AssertionError\<close>; it is the module's only
  parameter-count error.
\<close>

theorem too_few_parameters_rejected:
  "(length (pars (objs h self)) = parsize (objs h self) \<longrightarrow>
      length p < parsize (objs h self) \<longrightarrow>
      set_parameters self p h = (Inl AssertionError, h))
   \<and> (length (offsets_list offsets) \<noteq> MultiConstant_parsize obsid \<longrightarrow>
      MultiConstant_init offsets obsid time h = (Inl AssertionError, h))"
  by (simp add: set_parameters_def MultiConstant_init_def Let_def)

theorem too_few_parameters_rejected_witness:
  "length (pars (objs sum_of_constants 2)) = parsize (objs sum_of_constants 2)
   \<and> length [5 :: real] < parsize (objs sum_of_constants 2)
   \<and> set_parameters 2 [5] sum_of_constants = (Inl AssertionError, sum_of_constants)
   \<and> length (offsets_list (OffFloat 3)) \<noteq> MultiConstant_parsize [1, 1, 2, 2]
   \<and> MultiConstant_init (OffFloat 3) [1, 1, 2, 2] (Float64Array [0, 1, 2, 3])
         sum_of_constants
       = (Inl AssertionError, sum_of_constants)"
proof -
  have l: "length (pars (objs sum_of_constants 2)) = parsize (objs sum_of_constants 2)"
    by (simp add: build_defs)
  have n: "length [5 :: real] < parsize (objs sum_of_constants 2)"
    by (simp add: build_defs)
  have m: "length (offsets_list (OffFloat 3)) \<noteq> MultiConstant_parsize [1, 1, 2, 2]"
    by (simp add: offsets_list_def MultiConstant_parsize_def ediff1d_def)
  from too_few_parameters_rejected
         [of sum_of_constants 2 "[5]" "OffFloat 3" "[1, 1, 2, 2]"
             "Float64Array [0, 1, 2, 3]"]
       l n m
  show ?thesis by simp
qed

subsection \<open>Composition operators\<close>

text \<open>
  Claim C8 at a Keplerian operand. \<^verbatim>\<open>Sum.__init__\<close> and \<^verbatim>\<open>Product.__init__\<close> read
  \<^verbatim>\<open>_param_names\<close> of both operands, which \<^verbatim>\<open>Keplerian\<close> (unlike the other leaves)
  does not define: with \<^verbatim>\<open>k = Keplerian(1, 1, 0, 0, 0, 0)\<close> and \<^verbatim>\<open>c = Constant(0)\<close>,
  each of \<^verbatim>\<open>k + c\<close>, \<^verbatim>\<open>c + k\<close> and \<^verbatim>\<open>k * c\<close> raises \<^verbatim>\<open>AttributeError\<close> and no
  composite is built.
\<close>

theorem add_Keplerian_raises:
  "fst (Keplerian_init 1 1 0 0 0 0 empty_store) = 0
   \<and> fst (Constant_init 0 (snd (Keplerian_init 1 1 0 0 0 0 empty_store))) = 1
   \<and> add 0 1 kepler_and_constant = (Inl AttributeError, kepler_and_constant)
   \<and> add 1 0 kepler_and_constant = (Inl AttributeError, kepler_and_constant)
   \<and> mul 0 1 kepler_and_constant = (Inl AttributeError, kepler_and_constant)"
  by (simp add: build_defs)

subsection \<open>\<^verbatim>\<open>MultiConstant\<close> on its training times\<close>

text \<open>
  On stored times of float dtype, a \<^verbatim>\<open>MultiConstant\<close> built with
  \<^verbatim>\<open>obsid = [1, 1, 2, 2]\<close> and \<^verbatim>\<open>offsets = [off1, mean]\<close> returns \<open>mean + off1\<close>
  at the two positions of instrument 1 and \<open>mean\<close> at the two positions of instrument 2.
\<close>

lemma MultiConstant_float_times:
  "fst (MultiConstant_init (OffSeq [off1, mean]) [1, 1, 2, 2]
          (Float64Array [t1, t2, t3, t4]) h)
     = Inr (nxt h)
   \<and> call (Suc depth)
       (snd (MultiConstant_init (OffSeq [off1, mean]) [1, 1, 2, 2]
               (Float64Array [t1, t2, t3, t4]) h))
       (nxt h) (Float64Array [t1, t2, t3, t4])
     = Inr [mean + off1, mean + off1, mean, mean]"
  by (simp add: MultiConstant_init_def MultiConstant_parsize_def offsets_list_def ediff1d_def
      alloc_def Let_def MultiConstant_call_def then_do_def np_binop_def)

text \<open>
  On stored times of integer dtype the level is first cast to an integer: what is
  returned is the truncated level, plus the offset for instrument 1.
\<close>

lemma MultiConstant_integer_times:
  "fst (MultiConstant_init (OffSeq [off1, mean]) [1, 1, 2, 2]
          (Int64Array [t1, t2, t3, t4]) h)
     = Inr (nxt h)
   \<and> call (Suc depth)
       (snd (MultiConstant_init (OffSeq [off1, mean]) [1, 1, 2, 2]
               (Int64Array [t1, t2, t3, t4]) h))
       (nxt h) (Int64Array [t1, t2, t3, t4])
     = Inr [real_of_int (cast_int64 mean) + off1, real_of_int (cast_int64 mean) + off1,
            real_of_int (cast_int64 mean), real_of_int (cast_int64 mean)]"
  by (simp add: MultiConstant_init_def MultiConstant_parsize_def offsets_list_def ediff1d_def
      alloc_def Let_def MultiConstant_call_def then_do_def np_binop_def)

text \<open>
  Claim C10 at \<^verbatim>\<open>MultiConstant([3, 10.5], obsid, time)\<close> with
  \<^verbatim>\<open>obsid = np.array([1, 1, 2, 2])\<close> and \<^verbatim>\<open>time = np.array([0, 1, 2, 3])\<close>, an
  integer array. Construction succeeds, and evaluation on the stored times returns
  \<open>[13, 13, 10, 10]\<close>: \<^verbatim>\<open>np.full_like(t, c)\<close> has dropped the fraction of the
  level \<open>10.5\<close>, so neither \<open>mean + off1 = 13.5\<close> nor \<open>mean = 10.5\<close> is reproduced.
\<close>

theorem MultiConstant_integer_times_truncate:
  "fst (MultiConstant_init (OffSeq [3, 21 / 2]) [1, 1, 2, 2] (Int64Array [0, 1, 2, 3])
          empty_store) = Inr 0
   \<and> call (Suc 0)
       (snd (MultiConstant_init (OffSeq [3, 21 / 2]) [1, 1, 2, 2] (Int64Array [0, 1, 2, 3])
               empty_store))
       0 (Int64Array [0, 1, 2, 3]) = Inr [13, 13, 10, 10]
   \<and> [13, 13, 10, 10] \<noteq> [21 / 2 + 3, 21 / 2 + 3, 21 / 2, 21 / 2 :: real]"
  by (simp add: MultiConstant_init_def MultiConstant_parsize_def offsets_list_def ediff1d_def
      alloc_def Let_def MultiConstant_call_def then_do_def np_binop_def empty_store_def
      cast_int64_def trunc_def)

subsection \<open>Evaluation of composites\<close>

lemma call_Sum:
  "cls (objs h s) = Sum \<Longrightarrow> attrs (objs h s) = Children a b \<Longrightarrow>
   call d h a t = Inr x \<Longrightarrow> call d h b t = Inr y \<Longrightarrow> length x = length y \<Longrightarrow>
   call (Suc d) h s t = Inr (map2 (+) x y)"
  by (simp add: np_binop_def)

lemma call_Product:
  "cls (objs h s) = Product \<Longrightarrow> attrs (objs h s) = Children a b \<Longrightarrow>
   call d h a t = Inr x \<Longrightarrow> call d h b t = Inr y \<Longrightarrow> length x = length y \<Longrightarrow>
   call (Suc d) h s t = Inr (map2 (*) x y)"
  by (simp add: np_binop_def)

subsection \<open>The refinement loop of \<^verbatim>\<open>Keplerian\<close>\<close>

lemma nd_halley_pass: "nd (halley_pass e s) = 0"
  by (simp add: halley_pass_def Let_def is_True_def np_sum_bool_def)

lemma count_halley_pass: "count (halley_pass e s) = count s + 1"
  by (simp add: halley_pass_def Let_def)

lemma kepler_loop_once: "kepler_loop e s = (if nd s > 0 then halley_pass e s else s)"
  by (subst kepler_loop.simps, subst kepler_loop.simps) (simp add: nd_halley_pass)

lemma length_E0_halley_pass:
  "length (M1 s) = length (E0 s) \<Longrightarrow> length (E0 (halley_pass e s)) = length (E0 s)"
  by (simp add: halley_pass_def Let_def)

lemma kepler_start_simps:
  "length (E0 (kepler_start P e phi t0 t)) = length t"
  "length (M1 (kepler_start P e phi t0 t)) = length t"
  "count (kepler_start P e phi t0 t) = 0"
  by (simp_all add: kepler_start_def kepler_M0_def Let_def)

text \<open>
  Claim C5. For six parameters and a non-empty times vector, evaluation returns an
  array of the length of the times, and the loop body runs once when some initial
  residual exceeds the tolerance and not at all otherwise: the count recomputed at the end
  of a pass is \<^verbatim>\<open>np.sum(convergence_criteria is True)\<close>, which is 0. Nothing here
  depends on the eccentricity, so the statement holds in particular for \<open>0 \<le> e < 1\<close>.
\<close>

theorem Keplerian_loop_runs_at_most_once:
  assumes "pars self = [P, K, e, w, phi, sys_vel]" and "t \<noteq> []"
  shows "(\<exists>rv. Keplerian_call self t = Inr rv \<and> length rv = length t)
       \<and> count (kepler_loop e (kepler_start P e phi (hd t) t))
           = (if nd (kepler_start P e phi (hd t) t) > 0 then 1 else 0)
       \<and> count (kepler_loop e (kepler_start P e phi (hd t) t)) \<le> 1"
proof -
  obtain t0 ts where t: "t = t0 # ts" using assms(2) by (cases t) auto
  have len: "length (E0 (kepler_loop e (kepler_start P e phi t0 t))) = length t"
    by (simp add: kepler_loop_once kepler_start_simps length_E0_halley_pass)
  have "Keplerian_call self t =
      Inr (map (\<lambda>v. K * (e * cos w + cos (w + v)) + sys_vel)
            (map (true_anomaly e) (E0 (kepler_loop e (kepler_start P e phi t0 t)))))"
    using assms(1) t by (simp add: Keplerian_call_def Let_def)
  with len have 1: "\<exists>rv. Keplerian_call self t = Inr rv \<and> length rv = length t"
    by simp
  have 2: "count (kepler_loop e (kepler_start P e phi (hd t) t))
           = (if nd (kepler_start P e phi (hd t) t) > 0 then 1 else 0)"
    by (simp add: kepler_loop_once count_halley_pass kepler_start_simps)
  from 1 2 show ?thesis by simp
qed

theorem Keplerian_loop_runs_at_most_once_witness:
  "pars (MeanModel_init Keplerian [1, 1, 1 / 2, 0, 1, 0]) = [1, 1, 1 / 2, 0, 1, 0]
   \<and> [0, 1 :: real] \<noteq> []
   \<and> (\<exists>rv. Keplerian_call (MeanModel_init Keplerian [1, 1, 1 / 2, 0, 1, 0]) [0, 1] = Inr rv
          \<and> length rv = length [0, 1 :: real])
   \<and> count (kepler_loop (1 / 2) (kepler_start 1 (1 / 2) 1 (hd [0, 1]) [0, 1])) \<le> 1"
proof -
  have p: "pars (MeanModel_init Keplerian [1, 1, 1 / 2, 0, 1, 0]) = [1, 1, 1 / 2, 0, 1, 0]"
    by (simp add: MeanModel_init_def)
  have n: "[0, 1 :: real] \<noteq> []" by simp
  from Keplerian_loop_runs_at_most_once [OF p n] p n
  show ?thesis by blast
qed

subsection \<open>Parameter validation of \<^verbatim>\<open>Keplerian\<close>\<close>

text \<open>
  Claim C6, as the code has it. \<^verbatim>\<open>Keplerian.__init__\<close> has no failure branch, and
  evaluating a Keplerian built from any six values on a non-empty times vector returns an
  array: neither the eccentricity nor the period is ever checked, and no error is raised.
\<close>

theorem Keplerian_never_rejects:
  "as_float t \<noteq> [] \<Longrightarrow>
   \<exists>rv. call (Suc depth) (snd (Keplerian_init P K e w phi sys_vel h))
          (fst (Keplerian_init P K e w phi sys_vel h)) t = Inr rv"
  by (cases "as_float t") (simp_all add: Keplerian_init_def MeanModel_init_def alloc_def
      Keplerian_call_def Let_def)

theorem Keplerian_never_rejects_witness:
  "as_float (Float64Array [0]) \<noteq> []
   \<and> (\<exists>rv. call (Suc 0) (snd (Keplerian_init (- 1) 1 (3 / 2) 0 0 0 empty_store))
          (fst (Keplerian_init (- 1) 1 (3 / 2) 0 0 0 empty_store)) (Float64Array [0])
        = Inr rv)"
proof -
  have n: "as_float (Float64Array [0]) \<noteq> []" by simp
  from Keplerian_never_rejects [OF n, of 0 "- 1" 1 "3 / 2" 0 0 0 empty_store] n
  show ?thesis by blast
qed

text \<open>
  Claim C6 as stated fails: \<^verbatim>\<open>Keplerian(-1, 1, 0, 0, 0, 0)\<close>, whose period is
  negative, is constructed, and evaluated at \<^verbatim>\<open>[0]\<close> it returns the radial velocity
  \<open>[1]\<close>.
\<close>

theorem Keplerian_negative_period_counterexample:
  "fst (Keplerian_init (- 1) 1 0 0 0 0 empty_store) = 0
   \<and> call (Suc 0) (snd (Keplerian_init (- 1) 1 0 0 0 0 empty_store)) 0 (Float64Array [0])
       = Inr [1]"
  by (simp add: Keplerian_init_def MeanModel_init_def alloc_def empty_store_def
      Keplerian_call_def Let_def kepler_loop_once kepler_start_def kepler_M0_def kepler_T0_def
      true_anomaly_def criteria_def)

subsection \<open>Circular orbits\<close>

lemma kepler_start_circular:
  "kepler_start P 0 phi t0 t =
     \<lparr>E0 = kepler_M0 P phi t0 t, M0 = kepler_M0 P phi t0 t,
      M1 = map (\<lambda>_. 0) (kepler_M0 P phi t0 t), nd = 0, count = 0\<rparr>"
  by (simp add: kepler_start_def Let_def zip_same_conv_map criteria_def)

lemma cos_plus_twice_arctan_tan:
  fixes w x :: real
  assumes "cos x \<noteq> 0"
  shows "cos (w + 2 * arctan (tan x)) = cos (w + 2 * x)"
proof -
  have c: "cos (2 * arctan (tan x)) = cos (2 * x)"
    using cos_tan_half [of "arctan (tan x)"] cos_tan_half [OF assms]
    by (simp add: tan_arctan)
  have s: "sin (2 * arctan (tan x)) = sin (2 * x)"
    using sin_tan_half [of "arctan (tan x)"] sin_tan_half [of x]
    by (simp add: tan_arctan)
  show ?thesis by (simp add: cos_add c s)
qed

text \<open>At a pole of the tangent the mean anomaly is an odd multiple of \<open>\<pi>\<close>.\<close>

lemma cos_plus_at_pole:
  fixes w m :: real
  assumes "cos (m / 2) = 0"
  shows "cos (w + pi) = cos (w + m)"
proof -
  have c: "cos m = - 1"
    using cos_double_cos [of "m / 2"] assms by simp
  have s: "sin m = 0"
    using sin_double [of "m / 2"] assms by simp
  show ?thesis by (simp add: cos_add c s)
qed

lemma cos_plus_true_anomaly_circular:
  "cos (w + true_anomaly 0 m) = cos (w + m)"
proof (cases "cos (m / 2) = 0")
  case True
  from cos_plus_at_pole [OF this, of w]
  show ?thesis using True by (simp add: true_anomaly_def)
next
  case False
  from cos_plus_twice_arctan_tan [OF this, of w]
  show ?thesis using False by (simp add: true_anomaly_def)
qed

text \<open>
  Claim C9, as the code has it. For eccentricity 0 and a period other than 0 the loop is
  not entered, the eccentric anomaly is the mean anomaly \<open>M(t) = 2\<pi>(t - T0)/P\<close> with
  \<open>T0 = t[0] - P\<phi>/(2\<pi>)\<close>, the true anomaly agrees with \<open>M(t)\<close> up to a multiple of
  \<open>2\<pi>\<close>, and evaluation returns \<open>K * cos (w + M(t)) + sys_vel\<close> at every time of the
  vector: the term \<open>K * e * cos w\<close> of the radial-velocity formula vanishes with \<open>e\<close>.
\<close>

theorem Keplerian_circular_orbit:
  assumes "pars self = [P, K, 0, w, phi, sys_vel]" and "t \<noteq> []" and "P \<noteq> 0"
  shows "Keplerian_call self t =
           Inr (map (\<lambda>x. K * cos (w + 2 * pi * (x - (hd t - (P * phi) / (2 * pi))) / P)
                          + sys_vel) t)"
proof -
  obtain t0 ts where t: "t = t0 # ts" using assms(2) by (cases t) auto
  have "Keplerian_call self t =
      Inr (map (\<lambda>m. K * (0 * cos w + cos (w + true_anomaly 0 m)) + sys_vel)
            (kepler_M0 P phi t0 t))"
    using assms(1) t
    by (simp add: Keplerian_call_def Let_def kepler_start_circular kepler_loop_once comp_def)
  also have "map (\<lambda>m. K * (0 * cos w + cos (w + true_anomaly 0 m)) + sys_vel)
        (kepler_M0 P phi t0 t)
      = map (\<lambda>m. K * cos (w + m) + sys_vel) (kepler_M0 P phi t0 t)"
    by (simp add: cos_plus_true_anomaly_circular)
  also have "map (\<lambda>m. K * cos (w + m) + sys_vel) (kepler_M0 P phi t0 t)
      = map (\<lambda>x. K * cos (w + 2 * pi * (x - (hd t - (P * phi) / (2 * pi))) / P) + sys_vel) t"
    using t by (simp add: kepler_M0_def kepler_T0_def comp_def)
  finally show ?thesis .
qed

theorem Keplerian_circular_orbit_witness:
  "pars (MeanModel_init Keplerian [2, 1, 0, 0, 0, 0]) = [2, 1, 0, 0, 0, 0]
   \<and> [0, 1 :: real] \<noteq> [] \<and> (2 :: real) \<noteq> 0
   \<and> Keplerian_call (MeanModel_init Keplerian [2, 1, 0, 0, 0, 0]) [0, 1] = Inr [1, - 1]"
proof -
  have p: "pars (MeanModel_init Keplerian [2, 1, 0, 0, 0, 0]) = [2, 1, 0, 0, 0, 0]"
    by (simp add: MeanModel_init_def)
  have n: "[0, 1 :: real] \<noteq> []" by simp
  have z: "(2 :: real) \<noteq> 0" by simp
  from Keplerian_circular_orbit [OF p n z] p n
  show ?thesis by simp
qed

text \<open>
  Claim C9 as stated fails: \<^verbatim>\<open>Keplerian(1, 1, 0, 0, 0, 0)\<close> at \<^verbatim>\<open>[0]\<close> has mean
  anomaly 0 and returns \<open>[1]\<close>, where \<open>K * (cos w + cos (w + M)) + sys_vel\<close> is 2.
\<close>

theorem Keplerian_circular_orbit_counterexample:
  "Keplerian_call (MeanModel_init Keplerian [1, 1, 0, 0, 0, 0]) [0] = Inr [1]
   \<and> kepler_M0 1 0 0 [0] = [0]
   \<and> [1 * (cos 0 + cos (0 + 0)) + 0] = [2 :: real]"
  by (simp add: MeanModel_init_def
      Keplerian_call_def Let_def kepler_loop_once kepler_start_def kepler_M0_def kepler_T0_def
      true_anomaly_def criteria_def)

subsection \<open>Convergence of the refinement loop\<close>

lemma sin_lower: 
  fixes x :: real assumes "0 \<le> x" shows "x - x ^ 3 / 6 \<le> sin x"
proof -
  have "\<bar>sin x - (\<Sum>m<3. sin_coeff m * x ^ m)\<bar> \<le> inverse (fact 3) * \<bar>x\<bar> ^ 3"
    by (rule Maclaurin_sin_bound)
  moreover have "(\<Sum>m<3. sin_coeff m * x ^ m) = x"
    by (simp add: sin_coeff_def lessThan_nat_numeral numeral_3_eq_3)
  moreover have "inverse (fact 3) * \<bar>x\<bar> ^ 3 = x ^ 3 / 6"
    using assms by (simp add: fact_numeral)
  ultimately show ?thesis by linarith
qed

lemma cos_lower:
  fixes x :: real shows "1 - x ^ 2 / 2 \<le> cos x"
proof -
  have "cos x = 1 - 2 * sin (x / 2) ^ 2"
    using cos_double_sin [of "x / 2"] by simp
  moreover have "sin (x / 2) ^ 2 \<le> (x / 2) ^ 2"
    using abs_sin_x_le_abs_x [of "x / 2"] by (metis abs_le_square_iff)
  ultimately show ?thesis by (simp add: power2_eq_square)
qed

lemma halley_residual_bound:
  fixes m e x0 r0 p1 p2 p3 d1 d2 d3 E :: real
  assumes m_def: "m = 1 / 100" and e_def: "e = 99 / 100"
    and x0_def: "x0 = m + e * sin m + 0.5 * (e ^ 2) * sin (2 * m)"
    and r0_def: "r0 = x0 - e * sin x0 - m"
    and p1_def: "p1 = 1 - e * cos x0" and p2_def: "p2 = e * sin x0"
    and p3_def: "p3 = 1 - p1"
    and d1_def: "d1 = - r0 / p1"
    and d2_def: "d2 = - r0 / (p1 + d1 * p2 / 2)"
    and d3_def: "d3 = - r0 / (p1 + d2 * p2 / 2 + d2 * d2 * p3 / 6)"
    and E_def: "E = x0 + d3"
  shows "r0 < - (1 / 1000)" and "E - e * sin E - m < - (1 / 1000)"
proof -
  have sm: "sin m \<le> 1 / 100" "99998 / 10000000 \<le> sin m"
    using sin_x_le_x [of m] sin_lower [of m] by (simp_all add: m_def power3_eq_cube)
  have s2m: "sin (2 * m) \<le> 2 / 100" "199986 / 10000000 \<le> sin (2 * m)"
    using sin_x_le_x [of "2 * m"] sin_lower [of "2 * m"] by (simp_all add: m_def power3_eq_cube)
  have x0: "297 / 10000 \<le> x0" "x0 \<le> 2971 / 100000"
    using sm s2m by (simp_all add: x0_def m_def e_def power2_eq_square)
  have x0_pos: "0 \<le> x0" using x0 by simp
  have "x0 ^ 3 \<le> (2971 / 100000) ^ 3"
    using x0 x0_pos by (intro power_mono) simp_all
  then have x0_3: "x0 ^ 3 / 6 \<le> 44 / 10000000" by (simp add: power3_eq_cube)
  have sx: "sin x0 \<le> x0" "x0 - 44 / 10000000 \<le> sin x0"
    using sin_x_le_x [OF x0_pos] sin_lower [OF x0_pos] x0_3 by simp_all
  define n0 where "n0 = - r0"
  have n0: "9698 / 1000000 \<le> n0" "n0 \<le> 9703 / 1000000"
    using sx x0 by (simp_all add: n0_def r0_def m_def e_def)
  show r0: "r0 < - (1 / 1000)" using n0 by (simp add: n0_def)
  have "x0 ^ 2 \<le> (2971 / 100000) ^ 2"
    using x0 x0_pos by (intro power_mono) simp_all
  then have "x0 ^ 2 / 2 \<le> 45 / 100000" by (simp add: power2_eq_square)
  then have cx: "99955 / 100000 \<le> cos x0" "cos x0 \<le> 1"
    using cos_lower [of x0] by simp_all
  have p1: "1 / 100 \<le> p1" "p1 \<le> 1045 / 100000"
    using cx by (simp_all add: p1_def e_def)
  have p2: "2939 / 100000 \<le> p2" "p2 \<le> 2942 / 100000"
    using sx x0 by (simp_all add: p2_def e_def)
  have p3: "9895 / 10000 \<le> p3"
    using p1 by (simp add: p3_def)
  have p1_pos: "0 < p1" using p1 by simp
  have d1_eq: "d1 = n0 / p1" by (simp add: d1_def n0_def)
  have d1: "928 / 1000 \<le> d1" "d1 \<le> 9703 / 10000"
    using n0 p1 p1_pos by (simp_all add: d1_eq pos_le_divide_eq pos_divide_le_eq)
  define q2 where "q2 = p1 + d1 * p2 / 2"
  have "928 / 1000 * (2939 / 100000) \<le> d1 * p2"
    using d1 p2 by (intro mult_mono) simp_all
  moreover have "d1 * p2 \<le> 9703 / 10000 * (2942 / 100000)"
    using d1 p2 by (intro mult_mono) simp_all
  ultimately have q2: "236 / 10000 \<le> q2" "q2 \<le> 2473 / 100000"
    using p1 by (simp_all add: q2_def)
  have q2_pos: "0 < q2" using q2 by simp
  have d2_eq: "d2 = n0 / q2" by (simp add: d2_def n0_def q2_def)
  have d2: "392 / 1000 \<le> d2"
    using n0 q2 q2_pos by (simp add: d2_eq pos_le_divide_eq)
  define q3 where "q3 = p1 + d2 * p2 / 2 + d2 * d2 * p3 / 6"
  have a: "392 / 1000 * (2939 / 100000) \<le> d2 * p2"
    using d2 p2 by (intro mult_mono) simp_all
  have dd: "392 / 1000 * (392 / 1000) \<le> d2 * d2"
    using d2 by (intro mult_mono) simp_all
  have b: "392 / 1000 * (392 / 1000) * (9895 / 10000) \<le> d2 * d2 * p3"
    using mult_mono [OF dd p3] by simp
  have q3: "411 / 10000 \<le> q3"
    using a b p1 by (simp add: q3_def)
  have q3_pos: "0 < q3" using q3 by simp
  have d3_eq: "d3 = n0 / q3" by (simp add: d3_def n0_def q3_def)
  have d3: "0 \<le> d3" "d3 \<le> 2361 / 10000"
    using n0 q3 q3_pos by (simp_all add: d3_eq pos_divide_le_eq)
  have E: "0 \<le> E" "E \<le> 27 / 100"
    using d3 x0 by (simp_all add: E_def)
  have "E ^ 3 \<le> (27 / 100) ^ 3"
    using E by (intro power_mono) simp_all
  then have "E ^ 3 / 6 \<le> 33 / 10000" by (simp add: power3_eq_cube)
  then have "E - 33 / 10000 \<le> sin E"
    using sin_lower [OF E(1)] by simp
  then show "E - e * sin E - m < - (1 / 1000)"
    using E by (simp add: e_def m_def)
qed

text \<open>
  Claim C4 at \<^verbatim>\<open>Keplerian(1, 1, 0.99, 0, 0.01, 0)\<close> and \<^verbatim>\<open>t = [0]\<close>. The mean
  anomaly of step 2 is \<open>0.01\<close>; the loop makes one pass and stops, and the eccentric
  anomaly \<open>E\<close> it leaves has \<open>\<bar>E - e * sin E - M\<bar>\<close> above the tolerance \<open>1e-10\<close> (it is
  above \<open>1e-3\<close>).
\<close>

theorem Keplerian_unconverged_after_loop:
  "Keplerian_call (MeanModel_init Keplerian [1, 1, 99 / 100, 0, 1 / 100, 0]) [0]
     = Inr (map (\<lambda>v. 1 * (99 / 100 * cos 0 + cos (0 + v)) + 0)
             (map (true_anomaly (99 / 100))
               (E0 (kepler_loop (99 / 100) (kepler_start 1 (99 / 100) (1 / 100) 0 [0])))))
   \<and> kepler_M0 1 (1 / 100) 0 [0] = [1 / 100]
   \<and> count (kepler_loop (99 / 100) (kepler_start 1 (99 / 100) (1 / 100) 0 [0])) = 1
   \<and> length (E0 (kepler_loop (99 / 100) (kepler_start 1 (99 / 100) (1 / 100) 0 [0]))) = 1
   \<and> criteria <
       \<bar>hd (E0 (kepler_loop (99 / 100) (kepler_start 1 (99 / 100) (1 / 100) 0 [0])))
        - 99 / 100 * sin (hd (E0 (kepler_loop (99 / 100)
                                   (kepler_start 1 (99 / 100) (1 / 100) 0 [0]))))
        - 1 / 100\<bar>"
proof -
  define m :: real where "m = 1 / 100"
  define e :: real where "e = 99 / 100"
  define x0 where "x0 = m + e * sin m + 0.5 * (e ^ 2) * sin (2 * m)"
  define r0 where "r0 = x0 - e * sin x0 - m"
  define p1 where "p1 = 1 - e * cos x0"
  define p2 where "p2 = e * sin x0"
  define p3 where "p3 = 1 - p1"
  define d1 where "d1 = - r0 / p1"
  define d2 where "d2 = - r0 / (p1 + d1 * p2 / 2)"
  define d3 where "d3 = - r0 / (p1 + d2 * p2 / 2 + d2 * d2 * p3 / 6)"
  define E where "E = x0 + d3"
  note bound = halley_residual_bound
    [OF m_def e_def x0_def r0_def p1_def p2_def p3_def d1_def d2_def d3_def E_def]
  have M: "kepler_M0 1 m 0 [0] = [m]"
    by (simp add: kepler_M0_def kepler_T0_def)
  have nd1: "length (filter (\<lambda>x. \<bar>x\<bar> > criteria) [r0]) = 1"
    using bound(1) by (simp add: criteria_def)
  have st: "kepler_start 1 e m 0 [0] = \<lparr>E0 = [x0], M0 = [m], M1 = [r0], nd = 1, count = 0\<rparr>"
    unfolding kepler_start_def Let_def M using nd1
    by (simp add: x0_def r0_def)
  have hp: "E0 (halley_pass e \<lparr>E0 = [x0], M0 = [m], M1 = [r0], nd = 1, count = 0\<rparr>) = [E]"
    unfolding E_def d3_def d2_def d1_def p3_def p2_def p1_def halley_pass_def Let_def
    by simp
  have lp: "kepler_loop e (kepler_start 1 e m 0 [0])
      = halley_pass e \<lparr>E0 = [x0], M0 = [m], M1 = [r0], nd = 1, count = 0\<rparr>"
    by (simp add: kepler_loop_once st)
  have c: "count (kepler_loop e (kepler_start 1 e m 0 [0])) = 1"
    by (simp add: lp count_halley_pass)
  have E: "E0 (kepler_loop e (kepler_start 1 e m 0 [0])) = [E]"
    unfolding lp by (rule hp)
  have r: "criteria < \<bar>E - e * sin E - m\<bar>"
    using bound(2) by (simp add: criteria_def)
  have k: "Keplerian_call (MeanModel_init Keplerian [1, 1, e, 0, m, 0]) [0]
     = Inr (map (\<lambda>v. 1 * (e * cos 0 + cos (0 + v)) + 0)
             (map (true_anomaly e) (E0 (kepler_loop e (kepler_start 1 e m 0 [0])))))"
    by (simp add: Keplerian_call_def MeanModel_init_def Let_def)
  show ?thesis
    using k M c E r unfolding m_def e_def by simp
qed

end
